theory Spec2Isabelle
  imports Complex_Main "HOL-Library.Sublist"
begin

section \<open>Conventions of the embedding\<close>

text \<open>
  The repository holds three Go programs: the low-spec device benchmark (the
  source file that defines \<^verbatim>\<open>runLowSpecTest\<close>), \<^verbatim>\<open>tools/model_comparison.go\<close>
  and \<^verbatim>\<open>tools/uroboro_model_tester.go\<close>.
  Their decision logic is embedded here function by function, under the names of
  the source.

  \<^item> Go \<^verbatim>\<open>string\<close> is a byte sequence: \<open>string\<close> (\<open>char list\<close>), and
    \<^verbatim>\<open>len\<close> is \<open>length\<close>.
  \<^item> \<^verbatim>\<open>int\<close> and \<^verbatim>\<open>int64\<close> are \<open>int\<close>. The only integer arithmetic of
    the functions below is the difference of two memory samples (each a parsed
    kilobyte count divided by 1024) and small constants, all far inside 64 bits.
  \<^item> \<^verbatim>\<open>time.Duration\<close> is its number of nanoseconds, an \<open>int\<close>.
  \<^item> \<^verbatim>\<open>float64\<close> is a rational (\<open>rat\<close>). In the low-spec benchmark and
    the model tester every operation is the mathematical one; for the risk
    classes, whose thresholds are compared with a rounded quotient,
    \<open>assessOOMRisk_rounded\<close> is the same function with every conversion,
    operation and constant rounded. In the model comparison tool, where a
    rounded product is truncated to a divisor, every operation is rounded to
    the nearest \<^verbatim>\<open>float64\<close> (\<open>float64\<close> below).
  \<^item> A run-time panic is a value: a function that can panic returns
    \<open>panic + 'a\<close>, \<open>Inl\<close> the panic.
  \<^item> What an external process or the operating system returns (the output of
    \<^verbatim>\<open>ollama\<close>, the clock, \<^verbatim>\<open>/proc/meminfo\<close>) is an input of the model.
\<close>

section \<open>Library functions of Go used by the programs\<close>

definition Contains :: "string \<Rightarrow> string \<Rightarrow> bool" where
  \<comment> \<open>\<^verbatim>\<open>strings.Contains(s, substr)\<close>\<close>
  "Contains s substr = sublist substr s"

definition byte :: "char \<Rightarrow> nat" where
  "byte c = of_char c"

definition lowerChar :: "char \<Rightarrow> char" where
  "lowerChar c = (let n = byte c in if 65 \<le> n \<and> n \<le> 90 then char_of (n + 32) else c)"

definition isASCII :: "string \<Rightarrow> bool" where
  "isASCII s = list_all (\<lambda>c. byte c < 128) s"

definition unicodeToLower :: "string \<Rightarrow> string" where
  \<comment> \<open>\<^verbatim>\<open>strings.Map(unicode.ToLower, s)\<close>, which \<^verbatim>\<open>strings.ToLower\<close> applies to text
      with a byte beyond ASCII. It reads the case tables of Go's \<^verbatim>\<open>unicode\<close>
      package, which are not embedded: the function is left unspecified, so that
      nothing is proved from its values.\<close>
  "unicodeToLower = undefined"

definition ToLower :: "string \<Rightarrow> string" where
  \<comment> \<open>\<^verbatim>\<open>strings.ToLower\<close>: on ASCII text the bytes \<open>A\<close>..\<open>Z\<close> are mapped and
      every other byte is kept\<close>
  "ToLower s = (if isASCII s then map lowerChar s else unicodeToLower s)"

text \<open>
  \<^verbatim>\<open>strings.TrimSpace\<close> and \<^verbatim>\<open>strings.Fields\<close> decode the text as UTF-8 and test
  each code point with \<^verbatim>\<open>unicode.IsSpace\<close>: U+0009..U+000D, U+0020, U+0085,
  U+00A0, U+1680, U+2000..U+200A, U+2028, U+2029, U+202F, U+205F and U+3000. The
  encoding of each of them starts with a byte that is not a continuation byte, so
  it is decoded as that code point wherever it stands in the text, and
  \<open>spaceWidth\<close> tells whether the text starts with one, and on how many bytes.
\<close>

fun spaceWidth :: "string \<Rightarrow> nat" where
  "spaceWidth [] = 0"
| "spaceWidth (c # cs) =
     (let b0 = byte c in
        if b0 \<in> {0x09, 0x0A, 0x0B, 0x0C, 0x0D, 0x20} then 1
        else case cs of
          [] \<Rightarrow> 0
        | c1 # cs1 \<Rightarrow>
            (let b1 = byte c1 in
               if b0 = 0xC2 \<and> (b1 = 0x85 \<or> b1 = 0xA0) then 2
               else case cs1 of
                 [] \<Rightarrow> 0
               | c2 # cs2 \<Rightarrow>
                   (let b2 = byte c2 in
                      if b0 = 0xE1 \<and> b1 = 0x9A \<and> b2 = 0x80 then 3
                      else if b0 = 0xE2 \<and> b1 = 0x80
                              \<and> (0x80 \<le> b2 \<and> b2 \<le> 0x8A \<or> b2 = 0xA8 \<or> b2 = 0xA9 \<or> b2 = 0xAF)
                        then 3
                      else if b0 = 0xE2 \<and> b1 = 0x81 \<and> b2 = 0x9F then 3
                      else if b0 = 0xE3 \<and> b1 = 0x80 \<and> b2 = 0x80 then 3
                      else 0)))"

definition spaceWidthBack :: "string \<Rightarrow> nat" where
  \<comment> \<open>the width of a white-space code point at the end of a text, read from the
      reversed text\<close>
  "spaceWidthBack r =
     (if spaceWidth (rev (take 1 r)) = 1 then 1
      else if spaceWidth (rev (take 2 r)) = 2 then 2
      else if spaceWidth (rev (take 3 r)) = 3 then 3
      else 0)"

fun trimLeftFrom :: "nat \<Rightarrow> string \<Rightarrow> string" where
  \<comment> \<open>drops the leading white space; the first argument counts the bytes still to
      drop of the code point being dropped\<close>
  "trimLeftFrom skip [] = []"
| "trimLeftFrom skip (c # cs) =
     (if 0 < skip then trimLeftFrom (skip - 1) cs
      else if 0 < spaceWidth (c # cs) then trimLeftFrom (spaceWidth (c # cs) - 1) cs
      else c # cs)"

fun trimBackFrom :: "nat \<Rightarrow> string \<Rightarrow> string" where
  \<comment> \<open>the same on the reversed text, for the trailing white space\<close>
  "trimBackFrom skip [] = []"
| "trimBackFrom skip (c # cs) =
     (if 0 < skip then trimBackFrom (skip - 1) cs
      else if 0 < spaceWidthBack (c # cs) then trimBackFrom (spaceWidthBack (c # cs) - 1) cs
      else c # cs)"

definition TrimSpace :: "string \<Rightarrow> string" where
  \<comment> \<open>\<^verbatim>\<open>strings.TrimSpace\<close>\<close>
  "TrimSpace s = rev (trimBackFrom 0 (rev (trimLeftFrom 0 s)))"

fun fieldsFrom :: "string \<Rightarrow> nat \<Rightarrow> string \<Rightarrow> string list" where
  \<comment> \<open>the scan of \<^verbatim>\<open>strings.Fields\<close>: the first argument is the field being read,
      the second counts the bytes still to drop of a white-space code point\<close>
  "fieldsFrom cur skip [] = (if cur = [] then [] else [cur])"
| "fieldsFrom cur skip (c # cs) =
     (if 0 < skip then fieldsFrom cur (skip - 1) cs
      else if 0 < spaceWidth (c # cs)
        then (if cur = [] then fieldsFrom [] (spaceWidth (c # cs) - 1) cs
              else cur # fieldsFrom [] (spaceWidth (c # cs) - 1) cs)
      else fieldsFrom (cur @ [c]) 0 cs)"

definition Fields :: "string \<Rightarrow> string list" where
  \<comment> \<open>\<^verbatim>\<open>strings.Fields\<close>: the maximal runs of bytes between white space\<close>
  "Fields s = fieldsFrom [] 0 s"

fun splitFrom :: "string \<Rightarrow> string \<Rightarrow> string list" where
  "splitFrom cur [] = [cur]"
| "splitFrom cur (c # cs) =
     (if c = CHR 0x0A then cur # splitFrom [] cs else splitFrom (cur @ [c]) cs)"

definition SplitLines :: "string \<Rightarrow> string list" where
  \<comment> \<open>\<^verbatim>\<open>strings.Split(s, "\n")\<close>: never empty, one more element than line feeds\<close>
  "SplitLines s = splitFrom [] s"

definition Seconds :: "int \<Rightarrow> rat" where
  \<comment> \<open>\<^verbatim>\<open>time.Duration.Seconds\<close>\<close>
  "Seconds d = of_int d / 1000000000"

definition Second :: int where
  \<comment> \<open>\<^verbatim>\<open>time.Second\<close>, in nanoseconds\<close>
  "Second = 1000000000"

section \<open>The model comparison tool (\<^verbatim>\<open>tools/model_comparison.go\<close>)\<close>

text \<open>
  \<^verbatim>\<open>findBestModel\<close> divides a duration by a truncated \<^verbatim>\<open>float64\<close> product, so
  that rounding decides between a quotient, a quotient by one less and a division
  by zero. The \<^verbatim>\<open>float64\<close> operations of this tool are therefore rounded:
  \<open>float64 x\<close> is the \<^verbatim>\<open>float64\<close> nearest to \<open>x\<close>, ties going to the even
  significand of 53 bits. (The exponent range of the type is not modelled; the
  magnitudes here are counts, seconds and their quotients.)
\<close>

fun scale53 :: "nat \<Rightarrow> int \<Rightarrow> int \<Rightarrow> int \<Rightarrow> int \<times> int \<times> int" where
  \<comment> \<open>\<open>scale53 n p q e\<close> halves or doubles the fraction \<open>p / q\<close>, at most \<open>n\<close>
      times, until it is in \<open>[2 ^ 52, 2 ^ 53)\<close>, keeping \<open>p / q * 2 ^ e\<close> unchanged\<close>
  "scale53 0 p q e = (p, q, e)"
| "scale53 (Suc n) p q e =
     (if 9007199254740992 * q \<le> p then scale53 n p (2 * q) (e + 1)
      else if p < 4503599627370496 * q then scale53 n (2 * p) q (e - 1)
      else (p, q, e))"

definition pow2 :: "int \<Rightarrow> rat" where
  "pow2 e = (if 0 \<le> e then 2 ^ nat e else 1 / 2 ^ nat (- e))"

definition roundHalfEven :: "int \<Rightarrow> int \<Rightarrow> int" where
  \<comment> \<open>the integer nearest to \<open>p / q\<close> for \<open>q > 0\<close>, the even one of two at the
      same distance\<close>
  "roundHalfEven p q =
     (let n = p div q; r = p mod q in
        if 2 * r < q then n else if q < 2 * r then n + 1 else if even n then n else n + 1)"

definition float64 :: "rat \<Rightarrow> rat" where
  "float64 x =
     (if x = 0 then 0
      else case quotient_of \<bar>x\<bar> of
             (p0, q0) \<Rightarrow>
               (case scale53 2200 p0 q0 0 of
                  (p, q, e) \<Rightarrow> sgn x * of_int (roundHalfEven p q) * pow2 e))"

definition quo :: "int \<Rightarrow> int \<Rightarrow> int" where
  \<comment> \<open>Go's integer division by a divisor that is not zero: the quotient is
      truncated towards zero\<close>
  "quo a b = sgn a * sgn b * (\<bar>a\<bar> div \<bar>b\<bar>)"

definition toInt64 :: "rat \<Rightarrow> int" where
  \<comment> \<open>the conversion of a \<^verbatim>\<open>float64\<close> to an integer type drops the fraction\<close>
  "toInt64 x = sgn \<lfloor>x\<rfloor> * \<lfloor>\<bar>x\<bar>\<rfloor>"

definition SecondsF64 :: "int \<Rightarrow> rat" where
  \<comment> \<open>\<^verbatim>\<open>time.Duration.Seconds\<close>: \<^verbatim>\<open>float64(d / Second) + float64(d % Second) / 1e9\<close>\<close>
  "SecondsF64 d =
     (let sec = quo d 1000000000; nsec = d - sec * 1000000000 in
        float64 (float64 (of_int sec) + float64 (float64 (of_int nsec) / 1000000000)))"

datatype panic = DivideByZero

record ModelResult =
  Model :: string
  Prompt :: string
  Output :: string
  ResponseTime :: int
  Success :: bool
  Error :: string
  OutputLength :: int
  Timestamp :: int

record ModelPerf =
  \<comment> \<open>the anonymous struct of \<^verbatim>\<open>findBestModel\<close>\<close>
  successRate :: rat
  avgResponseTime :: int
  count :: int

definition inferUseCase :: "string \<Rightarrow> string" where
  "inferUseCase prompt0 =
     (let prompt = ToLower prompt0 in
        if Contains prompt ''blog post'' \<or> Contains prompt ''engaging blog'' then ''blog''
        else if Contains prompt ''social media'' \<or> Contains prompt ''engaging social''
          then ''social''
        else if Contains prompt ''devlog'' \<or> Contains prompt ''development log'' then ''devlog''
        else if Contains prompt ''summary'' \<or> Contains prompt ''concise'' then ''capture''
        else ''general'')"

fun perfLoop :: "ModelResult list \<Rightarrow> (string \<rightharpoonup> ModelPerf) \<Rightarrow> (string \<rightharpoonup> ModelPerf)" where
  \<comment> \<open>the first loop of \<^verbatim>\<open>findBestModel\<close>; a missing key reads as the zero struct\<close>
  "perfLoop [] modelPerf = modelPerf"
| "perfLoop (result # rest) modelPerf =
     (let perf0 = (case modelPerf (Model result) of
                     None \<Rightarrow> \<lparr>successRate = 0, avgResponseTime = 0, count = 0\<rparr>
                   | Some p \<Rightarrow> p);
          perf1 = perf0\<lparr>count := count perf0 + 1\<rparr>;
          perf2 = (if Success result
                   then perf1\<lparr>successRate := float64 (successRate perf1 + 1),
                          avgResponseTime := avgResponseTime perf1 + ResponseTime result\<rparr>
                   else perf1)
      in perfLoop rest (modelPerf(Model result \<mapsto> perf2)))"

definition finalizePerf :: "ModelPerf \<Rightarrow> panic + ModelPerf" where
  \<comment> \<open>the body of the loop \<^verbatim>\<open>Finalize averages\<close>: the rate is the rounded
      quotient, the divisor of the duration is the truncated rounded product of the
      rate and the count, and dividing by a divisor of zero panics\<close>
  "finalizePerf perf0 =
     (let perf = perf0\<lparr>successRate :=
            float64 (successRate perf0 / float64 (of_int (count perf0)))\<rparr> in
        if successRate perf > 0
        then let divisor = toInt64 (float64 (successRate perf * float64 (of_int (count perf))))
             in if divisor = 0 then Inl DivideByZero
                else Inr (perf\<lparr>avgResponseTime := quo (avgResponseTime perf) divisor\<rparr>)
        else Inr perf)"

fun bestLoop :: "string list \<Rightarrow> (string \<rightharpoonup> ModelPerf) \<Rightarrow> string \<times> rat \<Rightarrow> string \<times> rat" where
  \<comment> \<open>the last loop of \<^verbatim>\<open>findBestModel\<close> on \<^verbatim>\<open>(bestModel, bestScore)\<close>, visiting the
      keys in the order of the first argument\<close>
  "bestLoop [] modelPerf (bestModel, bestScore) = (bestModel, bestScore)"
| "bestLoop (model # rest) modelPerf (bestModel, bestScore) =
     (case modelPerf model of
        None \<Rightarrow> bestLoop rest modelPerf (bestModel, bestScore)
      | Some perf \<Rightarrow>
          (let score = float64 (successRate perf
                         - float64 (SecondsF64 (avgResponseTime perf) / 100)) in
             if score > bestScore then bestLoop rest modelPerf (model, score)
             else bestLoop rest modelPerf (bestModel, bestScore)))"

text \<open>
  Go leaves the order in which \<^verbatim>\<open>range\<close> visits a map unspecified. The loop that
  finalizes the averages treats each key on its own, so no order shows in its
  result: it panics when the entry of some model does, and the models are the
  distinct \<^verbatim>\<open>Model\<close> fields of the results. The loop that picks the best model
  compares with \<^verbatim>\<open>>\<close>, so among models of equal score the one visited first wins:
  the order of the visit is the first argument of \<open>findBestModel\<close>, a list of the
  keys of \<^verbatim>\<open>modelPerf\<close>.
\<close>

definition findBestModel :: "string list \<Rightarrow> ModelResult list \<Rightarrow> panic + string" where
  "findBestModel visit results =
     (if length results = 0 then Inr []
      else let counted = perfLoop results Map.empty;
               models = remdups (map Model results)
           in if list_ex (\<lambda>model. case counted model of
                                     None \<Rightarrow> False
                                   | Some perf \<Rightarrow> isl (finalizePerf perf)) models
              then Inl DivideByZero
              else let modelPerf = (\<lambda>model.
                         case counted model of
                           None \<Rightarrow> None
                         | Some perf \<Rightarrow>
                             (case finalizePerf perf of
                                Inl e \<Rightarrow> None
                              | Inr perf' \<Rightarrow> Some perf'))
                   in Inr (fst (bestLoop visit modelPerf ([], - 1))))"

fun useCaseLoop ::
  "ModelResult list \<Rightarrow> (string \<rightharpoonup> ModelResult list) \<Rightarrow> (string \<rightharpoonup> ModelResult list)" where
  \<comment> \<open>the loop of \<^verbatim>\<open>generateSummary\<close> that fills \<^verbatim>\<open>useCaseResults\<close>\<close>
  "useCaseLoop [] useCaseResults = useCaseResults"
| "useCaseLoop (result # rest) useCaseResults =
     (let useCase = inferUseCase (Prompt result) in
        useCaseLoop rest
          (useCaseResults(useCase \<mapsto>
             (case useCaseResults useCase of None \<Rightarrow> [] | Some rs \<Rightarrow> rs) @ [result])))"

definition generateSummary_BestModel ::
  "(ModelResult list \<Rightarrow> string list) \<Rightarrow> ModelResult list \<Rightarrow> panic + (string \<rightharpoonup> string)" where
  \<comment> \<open>the field \<^verbatim>\<open>BestModel\<close> of the summary \<^verbatim>\<open>generateSummary\<close> returns, or the
      panic of a call of \<^verbatim>\<open>findBestModel\<close>; the first argument gives, for each such
      call, the order of its visit\<close>
  "generateSummary_BestModel visit results =
     (let useCaseResults = useCaseLoop results Map.empty;
          useCases = remdups (map (\<lambda>result. inferUseCase (Prompt result)) results)
      in if list_ex (\<lambda>useCase. case useCaseResults useCase of
                                  None \<Rightarrow> False
                                | Some caseResults \<Rightarrow>
                                    isl (findBestModel (visit caseResults) caseResults)) useCases
         then Inl DivideByZero
         else Inr (\<lambda>useCase.
                case useCaseResults useCase of
                  None \<Rightarrow> None
                | Some caseResults \<Rightarrow>
                    (case findBestModel (visit caseResults) caseResults of
                       Inl e \<Rightarrow> None
                     | Inr bestModel \<Rightarrow> if bestModel \<noteq> [] then Some bestModel else None)))"

section \<open>The model tester (\<^verbatim>\<open>tools/uroboro_model_tester.go\<close>)\<close>

text \<open>
  Of \<^verbatim>\<open>generateConfigRecommendation\<close> the primary model and the fallback chain are
  embedded; the maps it copies from the summary are left out.
\<close>

record UroboroConfigRecommendation =
  PrimaryModel :: string
  FallbackChain :: "string list"

definition generateConfigRecommendation ::
  "(string \<rightharpoonup> string) \<Rightarrow> UroboroConfigRecommendation" where
  \<comment> \<open>the argument is \<^verbatim>\<open>summary.BestModelPerUseCase\<close>\<close>
  "generateConfigRecommendation bestModelPerUseCase =
     (let primary = (case bestModelPerUseCase ''capture'' of
                       Some bestCapture \<Rightarrow> bestCapture
                     | None \<Rightarrow> ''mistral:latest'');
          fallbacks = [''mistral:latest'', ''llama2:7b'', ''orca-mini:3b'']
      in \<lparr>PrimaryModel = primary, FallbackChain = fallbacks\<rparr>)"

section \<open>The low-spec benchmark: data model\<close>

record HardwareProfile =
  DeviceName :: string
  OS :: string
  Architecture :: string
  CPUCores :: int
  TotalRAM :: int
  AvailableRAM :: int
  StorageType :: string
  ThermalProfile :: string
  PowerProfile :: string
  Notes :: string

record TestScenario =
  Name :: string
  Description :: string
  UseCase :: string
  Prompt :: string
  MaxTokens :: int
  Priority :: string

record BenchmarkResult =
  Model :: string
  ModelSize :: string
  Quantization :: string
  TestCase :: string
  Prompt :: string
  Output :: string
  Success :: bool
  Error :: string
  ResponseTime :: int
  TimeToFirstToken :: int
  TokensPerSecond :: rat
  PeakMemoryMB :: int
  AvgCPUPercent :: rat
  MemoryEfficiency :: rat
  ThermalThrottling :: bool
  SwapUsed :: bool
  OOMRisk :: string
  BatteryImpact :: string
  OutputLength :: int
  QualityScore :: rat
  UsabilityScore :: rat
  Timestamp :: int

record RecommendedConfig =
  PrimaryModel :: string
  FallbackModel :: string
  ContextLength :: int
  ConcurrentRequests :: int
  MemoryBuffer :: int
  SwapRecommendation :: string
  EnvironmentVars :: "string \<rightharpoonup> string"

text \<open>
  \<^verbatim>\<open>BenchmarkSummary.PerformanceInsights\<close>, a list of formatted report lines, is
  left out of the record.
\<close>

record BenchmarkSummary =
  OptimalModels :: "string \<rightharpoonup> string"
  MemoryRecommendations :: "string list"
  CostEfficiencyScore :: rat
  RecommendedConfig :: RecommendedConfig

section \<open>The low-spec benchmark: risk flags and scores\<close>

definition assessOOMRisk :: "int \<Rightarrow> int \<Rightarrow> string" where
  "assessOOMRisk memoryUsed availableMemory =
     (if memoryUsed \<le> 0 \<or> availableMemory \<le> 0 then ''unknown''
      else let usage = (of_int memoryUsed :: rat) / of_int availableMemory in
        if usage < 5 / 10 then ''low''
        else if usage < 8 / 10 then ''medium''
        else ''high'')"

definition assessBatteryImpact :: "int \<Rightarrow> int \<Rightarrow> string \<Rightarrow> string" where
  "assessBatteryImpact responseTime memoryUsed powerProfile =
     (if powerProfile \<noteq> ''battery'' then ''n/a''
      else let impact = Seconds responseTime + of_int memoryUsed / 1000 in
        if impact < 5 then ''minimal''
        else if impact < 15 then ''moderate''
        else ''high'')"

definition assessThermalThrottling :: "int \<Rightarrow> string \<Rightarrow> bool" where
  "assessThermalThrottling responseTime thermalProfile =
     (let expectedTime =
        (if thermalProfile = ''mobile'' then 10 * Second
         else if thermalProfile = ''laptop'' then 8 * Second
         else if thermalProfile = ''desktop'' then 5 * Second
         else 3 * Second)
      in responseTime > expectedTime * 2)"

definition expectedLength :: "string \<Rightarrow> int" where
  \<comment> \<open>the \<^verbatim>\<open>switch useCase\<close> of \<^verbatim>\<open>assessOutputQuality\<close>\<close>
  "expectedLength useCase =
     (if useCase = ''capture'' then 100
      else if useCase = ''summary'' then 200
      else if useCase = ''social'' then 150
      else if useCase = ''devlog'' then 400
      else if useCase = ''blog'' then 600
      else 200)"

definition assessOutputQuality :: "string \<Rightarrow> string \<Rightarrow> rat" where
  "assessOutputQuality output useCase =
     (let len = int (length output);
          ratio = (of_int len :: rat) / of_int (expectedLength useCase) in
        if ratio < 3 / 10 then 1
        else if ratio < 7 / 10 then 25 / 10
        else if ratio \<le> 15 / 10 then 4
        else if ratio \<le> 2 then 3
        else 2)"

definition calculateUsabilityScore :: "int \<Rightarrow> rat \<Rightarrow> string \<Rightarrow> rat" where
  "calculateUsabilityScore responseTime qualityScore priority =
     (let timeScore0 = 5 - Seconds responseTime / 10;
          timeScore = (if timeScore0 < 1 then 1 else timeScore0) in
        if priority = ''speed'' then 7 / 10 * timeScore + 3 / 10 * qualityScore
        else if priority = ''quality'' then 3 / 10 * timeScore + 7 / 10 * qualityScore
        else if priority = ''memory'' then 5 / 10 * timeScore + 5 / 10 * qualityScore
        else 5 / 10 * timeScore + 5 / 10 * qualityScore)"

section \<open>The low-spec benchmark: one invocation\<close>

definition inferModelSize :: "string \<Rightarrow> string" where
  "inferModelSize model0 =
     (let model = ToLower model0 in
        if Contains model ''3b'' then ''3b''
        else if Contains model ''7b'' then ''7b''
        else if Contains model ''13b'' then ''13b''
        else if Contains model ''30b'' \<or> Contains model ''33b'' then ''30b+''
        else ''unknown'')"

definition inferQuantization :: "string \<Rightarrow> string" where
  "inferQuantization model0 =
     (let model = ToLower model0 in
        if Contains model ''q4'' \<or> Contains model ''int4'' then ''int4''
        else if Contains model ''q8'' \<or> Contains model ''int8'' then ''int8''
        else if Contains model ''fp16'' then ''fp16''
        else ''fp16'')"

text \<open>
  What \<^verbatim>\<open>runLowSpecTest\<close> reads from outside the program during one call, in
  the order of the source: the clock (\<^verbatim>\<open>time.Now()\<close>), \<^verbatim>\<open>getCurrentMemoryUsage()\<close>
  before the process starts, the process's standard output and error
  (\<^verbatim>\<open>cmd.Output()\<close>), the elapsed time (\<^verbatim>\<open>time.Since(start)\<close>) and
  \<^verbatim>\<open>getCurrentMemoryUsage()\<close> after the process has exited.
  \<^verbatim>\<open>getCurrentMemoryUsage\<close> returns the \<^verbatim>\<open>MemAvailable\<close> line of
  \<^verbatim>\<open>/proc/meminfo\<close> divided by 1024, that is the memory the system has
  available in MB, or 0 when it cannot be read.
\<close>

record Invocation =
  startTime :: int
  memAvailableBefore :: int
  cmdOutput :: string
  cmdErr :: "string option"
  elapsed :: int
  memAvailableAfter :: int

definition emptyResult :: BenchmarkResult where
  \<comment> \<open>the zero value of the struct\<close>
  "emptyResult =
     \<lparr>Model = [], ModelSize = [], Quantization = [], TestCase = [], Prompt = [],
      Output = [], Success = False, Error = [], ResponseTime = 0, TimeToFirstToken = 0,
      TokensPerSecond = 0, PeakMemoryMB = 0, AvgCPUPercent = 0, MemoryEfficiency = 0,
      ThermalThrottling = False, SwapUsed = False, OOMRisk = [], BatteryImpact = [],
      OutputLength = 0, QualityScore = 0, UsabilityScore = 0, Timestamp = 0\<rparr>"

definition runLowSpecTest ::
  "string \<Rightarrow> TestScenario \<Rightarrow> HardwareProfile \<Rightarrow> Invocation \<Rightarrow> BenchmarkResult" where
  "runLowSpecTest model scenario profile obs =
     (let result0 = emptyResult\<lparr>Model := model, TestCase := Name scenario,
            Prompt := TestScenario.Prompt scenario, Timestamp := startTime obs\<rparr>;
          result1 = result0\<lparr>ModelSize := inferModelSize model,
            Quantization := inferQuantization model\<rparr>;
          initialMemory = memAvailableBefore obs;
          responseTime = elapsed obs;
          finalMemory = memAvailableAfter obs;
          result2 = result1\<lparr>ResponseTime := responseTime,
            PeakMemoryMB := finalMemory - initialMemory\<rparr>
      in case cmdErr obs of
           Some e \<Rightarrow>
             result2\<lparr>Success := False, Error := e,
               OOMRisk := assessOOMRisk (PeakMemoryMB result2) (AvailableRAM profile)\<rparr>
         | None \<Rightarrow>
            (let result3 = result2\<lparr>Success := True, Output := TrimSpace (cmdOutput obs)\<rparr>;
                 result4 = result3\<lparr>OutputLength := int (length (Output result3))\<rparr>;
                 result5 =
                   (if OutputLength result4 > 0 \<and> responseTime > 0
                    then result4\<lparr>TokensPerSecond :=
                           (of_int (OutputLength result4) / 4) / Seconds responseTime\<rparr>
                    else result4);
                 result6 = result5\<lparr>
                   OOMRisk := assessOOMRisk (PeakMemoryMB result5) (AvailableRAM profile),
                   BatteryImpact :=
                     assessBatteryImpact responseTime (PeakMemoryMB result5) (PowerProfile profile),
                   SwapUsed := PeakMemoryMB result5 > AvailableRAM profile,
                   ThermalThrottling :=
                     assessThermalThrottling responseTime (ThermalProfile profile)\<rparr>;
                 result7 =
                   (if PeakMemoryMB result6 > 0
                    then result6\<lparr>MemoryEfficiency :=
                           of_int (OutputLength result6) / of_int (PeakMemoryMB result6)\<rparr>
                    else result6);
                 result8 = result7\<lparr>QualityScore :=
                   assessOutputQuality (Output result7) (UseCase scenario)\<rparr>
             in result8\<lparr>UsabilityScore :=
                  calculateUsabilityScore responseTime (QualityScore result8) (Priority scenario)\<rparr>))"

text \<open>
  The two nested loops of \<^verbatim>\<open>runLowSpecBenchmarks\<close>. The counter \<^verbatim>\<open>current\<close> is
  incremented before each test; the \<open>n\<close>-th test of a run reads the invocation
  \<open>world n\<close>.
\<close>

fun scenarioLoop ::
  "string \<Rightarrow> TestScenario list \<Rightarrow> HardwareProfile \<Rightarrow> (nat \<Rightarrow> Invocation) \<Rightarrow>
   BenchmarkResult list \<times> nat \<Rightarrow> BenchmarkResult list \<times> nat" where
  "scenarioLoop model [] profile world (results, current) = (results, current)"
| "scenarioLoop model (scenario # rest) profile world (results, current) =
     (let current' = current + 1;
          result = runLowSpecTest model scenario profile (world current')
      in scenarioLoop model rest profile world (results @ [result], current'))"

fun modelLoop ::
  "string list \<Rightarrow> TestScenario list \<Rightarrow> HardwareProfile \<Rightarrow> (nat \<Rightarrow> Invocation) \<Rightarrow>
   BenchmarkResult list \<times> nat \<Rightarrow> BenchmarkResult list \<times> nat" where
  "modelLoop [] scenarios profile world st = st"
| "modelLoop (model # rest) scenarios profile world st =
     modelLoop rest scenarios profile world (scenarioLoop model scenarios profile world st)"

definition runLowSpecBenchmarks ::
  "string list \<Rightarrow> TestScenario list \<Rightarrow> HardwareProfile \<Rightarrow> (nat \<Rightarrow> Invocation) \<Rightarrow>
   BenchmarkResult list" where
  "runLowSpecBenchmarks models scenarios profile world =
     fst (modelLoop models scenarios profile world ([], 0))"

section \<open>The low-spec benchmark: model discovery\<close>

fun modelsFrom :: "string list \<Rightarrow> string list \<Rightarrow> string list" where
  \<comment> \<open>the loop over \<^verbatim>\<open>lines[1:]\<close>; the second argument is \<^verbatim>\<open>models\<close>\<close>
  "modelsFrom [] models = models"
| "modelsFrom (line # rest) models =
     (if TrimSpace line = [] then modelsFrom rest models
      else case Fields line of
             [] \<Rightarrow> modelsFrom rest models
           | modelName # _ \<Rightarrow>
               if \<not> Contains modelName ''embedding''
               then modelsFrom rest (models @ [modelName])
               else modelsFrom rest models)"

definition getAvailableModels :: "string option \<Rightarrow> string list" where
  \<comment> \<open>the argument is what \<^verbatim>\<open>ollama list\<close> printed, \<open>None\<close> when the command failed\<close>
  "getAvailableModels listing =
     (case listing of
        None \<Rightarrow> []
      | Some output \<Rightarrow> modelsFrom (tl (SplitLines output)) [])"

section \<open>The low-spec benchmark: ranking and recommended configuration\<close>

definition adjustedScore :: "HardwareProfile \<Rightarrow> BenchmarkResult \<Rightarrow> rat" where
  \<comment> \<open>the value of \<^verbatim>\<open>score\<close> at the comparison in the loop body of
      \<^verbatim>\<open>findOptimalModelForUseCase\<close>\<close>
  "adjustedScore profile result =
     (let score0 = UsabilityScore result;
          score1 = (if AvailableRAM profile < 8192 \<and> OOMRisk result = ''high''
                    then score0 - 2 else score0);
          score2 = (if BatteryImpact result = ''high'' then score1 - 1 else score1)
      in if \<not> ThermalThrottling result then score2 + 5 / 10 else score2)"

fun optimalLoop ::
  "HardwareProfile \<Rightarrow> BenchmarkResult list \<Rightarrow> string \<times> rat \<Rightarrow> string \<times> rat" where
  \<comment> \<open>the loop of \<^verbatim>\<open>findOptimalModelForUseCase\<close> on \<^verbatim>\<open>(bestModel, bestScore)\<close>\<close>
  "optimalLoop profile [] (bestModel, bestScore) = (bestModel, bestScore)"
| "optimalLoop profile (result # rest) (bestModel, bestScore) =
     (let score = adjustedScore profile result in
        if score > bestScore then optimalLoop profile rest (Model result, score)
        else optimalLoop profile rest (bestModel, bestScore))"

definition findOptimalModelForUseCase :: "BenchmarkResult list \<Rightarrow> HardwareProfile \<Rightarrow> string" where
  "findOptimalModelForUseCase results profile =
     (if length results = 0 then [] else fst (optimalLoop profile results ([], 0)))"

fun groupLoop ::
  "BenchmarkResult list \<Rightarrow> (string \<rightharpoonup> BenchmarkResult list) \<Rightarrow>
   (string \<rightharpoonup> BenchmarkResult list)" where
  \<comment> \<open>the first loop of \<^verbatim>\<open>generateLowSpecSummary\<close>, on \<^verbatim>\<open>useCaseResults\<close>;
      appending to a missing key appends to the empty slice\<close>
  "groupLoop [] useCaseResults = useCaseResults"
| "groupLoop (result # rest) useCaseResults =
     (if Success result
      then let useCase = ToLower (TestCase result) in
        groupLoop rest
          (useCaseResults(useCase \<mapsto>
             (case useCaseResults useCase of None \<Rightarrow> [] | Some rs \<Rightarrow> rs) @ [result]))
      else groupLoop rest useCaseResults)"

definition generateMemoryRecommendations ::
  "BenchmarkResult list \<Rightarrow> HardwareProfile \<Rightarrow> string list" where
  "generateMemoryRecommendations results profile =
     (if AvailableRAM profile < 4096 then
        [''Consider using 3B models only for this device'',
         ''Enable swap file (4GB minimum) for stability'',
         ''Close other applications during AI processing'']
      else if AvailableRAM profile < 8192 then
        [''7B models should work well with careful memory management'',
         ''Monitor memory usage and consider swap for larger models'']
      else
        [''Your device can handle most models efficiently'',
         ''Consider running multiple models for different use cases''])"

fun efficiencyLoop :: "BenchmarkResult list \<Rightarrow> rat \<times> int \<Rightarrow> rat \<times> int" where
  "efficiencyLoop [] (totalScore, cnt) = (totalScore, cnt)"
| "efficiencyLoop (result # rest) (totalScore, cnt) =
     (if Success result \<and> PeakMemoryMB result > 0
      then let efficiency =
                 (QualityScore result * TokensPerSecond result) / of_int (PeakMemoryMB result)
           in efficiencyLoop rest (totalScore + efficiency, cnt + 1)
      else efficiencyLoop rest (totalScore, cnt))"

definition calculateCostEfficiencyScore :: "BenchmarkResult list \<Rightarrow> HardwareProfile \<Rightarrow> rat" where
  "calculateCostEfficiencyScore results profile =
     (case efficiencyLoop results (0, 0) of
        (totalScore, cnt) \<Rightarrow> if cnt = 0 then 0 else totalScore / of_int cnt)"

fun primaryLoop :: "BenchmarkResult list \<Rightarrow> string \<times> rat \<Rightarrow> string \<times> rat" where
  \<comment> \<open>the loop of \<^verbatim>\<open>generateRecommendedConfig\<close> on \<^verbatim>\<open>(bestModel, bestScore)\<close>\<close>
  "primaryLoop [] (bestModel, bestScore) = (bestModel, bestScore)"
| "primaryLoop (result # rest) (bestModel, bestScore) =
     (if Success result \<and> UsabilityScore result > bestScore
      then primaryLoop rest (Model result, UsabilityScore result)
      else primaryLoop rest (bestModel, bestScore))"

definition generateRecommendedConfig ::
  "BenchmarkResult list \<Rightarrow> HardwareProfile \<Rightarrow> RecommendedConfig" where
  "generateRecommendedConfig results profile =
     (let config0 = \<lparr>PrimaryModel = [], FallbackModel = [], ContextLength = 0,
            ConcurrentRequests = 0, MemoryBuffer = 0, SwapRecommendation = [],
            EnvironmentVars = Map.empty\<rparr>;
          bestModel = fst (primaryLoop results ([], 0));
          config1 = config0\<lparr>PrimaryModel := bestModel\<rparr>;
          config2 =
            (if AvailableRAM profile < 8192
             then config1\<lparr>ContextLength := 2048, ConcurrentRequests := 1,
                    MemoryBuffer := 1024, SwapRecommendation := ''Enable 4GB swap file''\<rparr>
             else config1\<lparr>ContextLength := 4096, ConcurrentRequests := 2,
                    MemoryBuffer := 2048, SwapRecommendation := ''Optional''\<rparr>);
          config3 = config2\<lparr>EnvironmentVars :=
            (EnvironmentVars config2)(''OLLAMA_MAX_LOADED_MODELS'' \<mapsto> ''1'',
                                      ''OLLAMA_NUM_PARALLEL'' \<mapsto> ''1'')\<rparr>
      in if ThermalProfile profile = ''mobile'' \<or> ThermalProfile profile = ''laptop''
         then config3\<lparr>EnvironmentVars :=
                (EnvironmentVars config3)(''OLLAMA_FLASH_ATTENTION'' \<mapsto> ''1'')\<rparr>
         else config3)"

text \<open>
  \<^verbatim>\<open>generateLowSpecSummary\<close>. Its second loop ranges over the map
  \<^verbatim>\<open>useCaseResults\<close> and writes \<^verbatim>\<open>summary.OptimalModels[useCase]\<close> for the key it
  visits only, so the resulting map does not depend on the order of the visit: the
  entry of a key is computed from the results grouped under that key.
\<close>

definition generateLowSpecSummary ::
  "BenchmarkResult list \<Rightarrow> HardwareProfile \<Rightarrow> BenchmarkSummary" where
  "generateLowSpecSummary results profile =
     (let useCaseResults = groupLoop results Map.empty;
          optimal = (\<lambda>useCase.
            case useCaseResults useCase of
              None \<Rightarrow> None
            | Some caseResults \<Rightarrow>
                (let bestModel = findOptimalModelForUseCase caseResults profile in
                   if bestModel \<noteq> [] then Some bestModel else None))
      in \<lparr>OptimalModels = optimal,
          MemoryRecommendations = generateMemoryRecommendations results profile,
          CostEfficiencyScore = calculateCostEfficiencyScore results profile,
          RecommendedConfig = generateRecommendedConfig results profile\<rparr>)"

section \<open>The built-in scenario catalog and sample runs\<close>

definition getLowSpecTestScenarios :: "TestScenario list" where
  "getLowSpecTestScenarios =
     [\<lparr>Name = ''Ultra-Fast Capture'',
       Description = ''Minimal latency for real-time development capture'',
       UseCase = ''capture'',
       Prompt = ''Summarize in one sentence: Fixed authentication bug in user service'',
       MaxTokens = 100, Priority = ''speed''\<rparr>,
      \<lparr>Name = ''Memory-Efficient Summary'',
       Description = ''Quality summary with minimal memory footprint'',
       UseCase = ''summary'',
       Prompt = ''Create a concise technical summary: Implemented Redis caching layer, reduced database queries by 60%, improved API response time from 800ms to 200ms'',
       MaxTokens = 200, Priority = ''memory''\<rparr>,
      \<lparr>Name = ''Battery-Friendly Social'',
       Description = ''Social media content optimized for battery life'',
       UseCase = ''social'',
       Prompt = ''Create engaging social media post: Successfully deployed microservices architecture, achieved 99.9% uptime'',
       MaxTokens = 150, Priority = ''speed''\<rparr>,
      \<lparr>Name = ''Quality-Focused Devlog'',
       Description = ''Technical content that balances quality and resources'',
       UseCase = ''devlog'',
       Prompt = ''Write technical development log: Migrated from monolith to microservices. Challenges: data consistency, service discovery, monitoring. Solutions: event sourcing, Consul, Prometheus'',
       MaxTokens = 400, Priority = ''quality''\<rparr>,
      \<lparr>Name = ''Resource-Constrained Blog'',
       Description = ''Blog post generation for very low-spec devices'',
       UseCase = ''blog'',
       Prompt = ''Write engaging blog post about: Building resilient distributed systems. Cover: fault tolerance, circuit breakers, graceful degradation. Target: developers learning microservices'',
       MaxTokens = 600, Priority = ''memory''\<rparr>]"

definition captureScenario :: TestScenario where
  "captureScenario = getLowSpecTestScenarios ! 0"

definition laptopProfile :: HardwareProfile where
  \<comment> \<open>a four-core laptop on battery with 4096 MB available\<close>
  "laptopProfile =
     \<lparr>DeviceName = ''devbox'', OS = ''linux'', Architecture = ''amd64'', CPUCores = 4,
      TotalRAM = 8192, AvailableRAM = 4096, StorageType = ''SSD'',
      ThermalProfile = ''laptop'', PowerProfile = ''battery'', Notes = []\<rparr>"

definition plainOutput :: string where
  \<comment> \<open>80 bytes of prose: no header, no bullet, no technical term\<close>
  "plainOutput = ''We closed the idle links in the pool after thirty seconds so the leak went away.''"

definition structuredOutput :: string where
  \<comment> \<open>80 bytes with a markdown header, a bullet and technical terms\<close>
  "structuredOutput = ''## Fix - closed idle connections in the API server pool after 30s timeout. Done.''"

definition consumingRun :: Invocation where
  \<comment> \<open>a run of 3 s during which the available memory drops from 8000 MB to 6000 MB\<close>
  "consumingRun =
     \<lparr>startTime = 0, memAvailableBefore = 8000,
      cmdOutput = ''Fixed the authentication bug in the user service.'', cmdErr = None,
      elapsed = 3 * Second, memAvailableAfter = 6000\<rparr>"

definition slowRun :: Invocation where
  \<comment> \<open>a successful run of 50 s, the available memory unchanged\<close>
  "slowRun =
     \<lparr>startTime = 0, memAvailableBefore = 5000, cmdOutput = plainOutput, cmdErr = None,
      elapsed = 50 * Second, memAvailableAfter = 5000\<rparr>"

definition lessSlowRun :: Invocation where
  \<comment> \<open>as \<open>slowRun\<close>, in 45 s\<close>
  "lessSlowRun = slowRun\<lparr>elapsed := 45 * Second\<rparr>"


definition failedComparison :: "ModelResult list" where
  \<comment> \<open>the model comparison tool's record of one model whose only run, on a blog
      prompt, timed out after 45 s\<close>
  "failedComparison =
     [\<lparr>ModelResult.Model = ''orca-mini:3b'',
       ModelResult.Prompt = ''Write a blog post about caching'',
       ModelResult.Output = [], ModelResult.ResponseTime = 45 * Second,
       ModelResult.Success = False, ModelResult.Error = ''signal: killed'',
       ModelResult.OutputLength = 0, ModelResult.Timestamp = 0\<rparr>]"

definition ollamaListing :: string where
  \<comment> \<open>three lines of \<^verbatim>\<open>ollama list\<close>: the header and two installed models\<close>
  "ollamaListing =
     ''NAME ID SIZE'' @ [CHR 0x0A] @
     ''granite-embedding:30m eb4c533ba6f7 62MB'' @ [CHR 0x0A] @
     ''orca-mini:3b 2dbd9f439647 2.0GB'' @ [CHR 0x0A]"

definition consumingResult :: BenchmarkResult where
  "consumingResult = runLowSpecTest ''orca-mini:3b'' captureScenario laptopProfile consumingRun"

definition slowResult :: BenchmarkResult where
  "slowResult = runLowSpecTest ''llama2:13b'' captureScenario laptopProfile slowRun"

definition lessSlowResult :: BenchmarkResult where
  "lessSlowResult = runLowSpecTest ''orca-mini:3b'' captureScenario laptopProfile lessSlowRun"



section \<open>Notions used to state the properties\<close>

definition riskLevel :: "string \<Rightarrow> nat" where
  \<comment> \<open>the order of the three documented risk classes\<close>
  "riskLevel risk = (if risk = ''low'' then 0 else if risk = ''medium'' then 1 else 2)"

text \<open>
  A \<^verbatim>\<open>float64\<close> operation rounds its exact result. A rounding is taken to be any
  function that is monotonic and leaves unchanged every rational \<open>n / 2 ^ k\<close>
  with \<open>\<bar>n\<bar> < 2 ^ 53\<close> and \<open>k \<le> 1074\<close>. These rationals are values of
  \<^verbatim>\<open>float64\<close> (the least positive one is \<open>1 / 2 ^ 1074\<close>), so rounding to the
  nearest \<^verbatim>\<open>float64\<close> is such a function.
\<close>

definition dyadic53 :: "rat \<Rightarrow> bool" where
  "dyadic53 x = (\<exists>n k. \<bar>n\<bar> < 9007199254740992 \<and> k \<le> (1074::nat) \<and> x = of_int n / 2 ^ k)"

definition faithfulRounding :: "(rat \<Rightarrow> rat) \<Rightarrow> bool" where
  "faithfulRounding rnd =
     ((\<forall>x y. x \<le> y \<longrightarrow> rnd x \<le> rnd y) \<and> (\<forall>x. dyadic53 x \<longrightarrow> rnd x = x))"

definition assessOOMRisk_rounded :: "(rat \<Rightarrow> rat) \<Rightarrow> int \<Rightarrow> int \<Rightarrow> string" where
  \<comment> \<open>\<^verbatim>\<open>assessOOMRisk\<close> with the two conversions, the division and the two
      constants rounded by \<open>rnd\<close>\<close>
  "assessOOMRisk_rounded rnd memoryUsed availableMemory =
     (if memoryUsed \<le> 0 \<or> availableMemory \<le> 0 then ''unknown''
      else let usage = rnd (rnd (of_int memoryUsed) / rnd (of_int availableMemory)) in
        if usage < rnd (5 / 10) then ''low''
        else if usage < rnd (8 / 10) then ''medium''
        else ''high'')"

definition groupOf :: "string \<Rightarrow> BenchmarkResult list \<Rightarrow> BenchmarkResult list" where
  \<comment> \<open>the successful results whose lower-cased \<^verbatim>\<open>TestCase\<close> is the given key, in the
      order of the list\<close>
  "groupOf key results = filter (\<lambda>r. Success r \<and> ToLower (TestCase r) = key) results"



definition listedNames :: "string list \<Rightarrow> string list" where
  \<comment> \<open>the names a listing shows: the first field of every line that is not blank\<close>
  "listedNames lines =
     concat (map (\<lambda>line. if TrimSpace line = [] then [] else take 1 (Fields line)) lines)"

section \<open>Facts about one invocation\<close>

lemma runLowSpecTest_PeakMemoryMB:
  "PeakMemoryMB (runLowSpecTest model scenario profile obs) =
     memAvailableAfter obs - memAvailableBefore obs"
  by (simp add: runLowSpecTest_def Let_def split: option.split)

lemma runLowSpecTest_OOMRisk:
  "OOMRisk (runLowSpecTest model scenario profile obs) =
     assessOOMRisk (PeakMemoryMB (runLowSpecTest model scenario profile obs))
       (AvailableRAM profile)"
  by (simp add: runLowSpecTest_def Let_def split: option.split)

lemma runLowSpecTest_Success:
  "Success (runLowSpecTest model scenario profile obs) = (cmdErr obs = None)"
  by (simp add: runLowSpecTest_def Let_def split: option.split)

lemma runLowSpecTest_Model:
  "BenchmarkResult.Model (runLowSpecTest model scenario profile obs) = model"
  by (simp add: runLowSpecTest_def Let_def emptyResult_def split: option.split)


subsection \<open>Facts about a benchmark run and about model discovery\<close>

lemma modelsFrom_filter:
  "modelsFrom lines models =
     models @ filter (\<lambda>name. \<not> Contains name ''embedding'') (listedNames lines)"
proof (induction lines arbitrary: models)
  case Nil
  then show ?case by (simp add: listedNames_def)
next
  case (Cons line rest)
  show ?case
    by (cases "Fields line") (simp_all add: Cons.IH listedNames_def)
qed

lemma scenarioLoop_models:
  assumes "r \<in> set (fst (scenarioLoop model scenarios profile world (results, current)))"
  shows "r \<in> set results \<or> BenchmarkResult.Model r = model"
  using assms
proof (induction scenarios arbitrary: results current)
  case Nil
  then show ?case by simp
next
  case (Cons scenario rest)
  from Cons.prems Cons.IH show ?case
    by (fastforce simp: Let_def runLowSpecTest_Model)
qed

lemma modelLoop_models:
  assumes "r \<in> set (fst (modelLoop models scenarios profile world st))"
  shows "r \<in> set (fst st) \<or> BenchmarkResult.Model r \<in> set models"
  using assms
proof (induction models arbitrary: st)
  case Nil
  then show ?case by simp
next
  case (Cons model rest)
  obtain results current where st: "st = (results, current)"
    by (cases st)
  from Cons.prems Cons.IH [of "scenarioLoop model scenarios profile world st"]
  have "r \<in> set (fst (scenarioLoop model scenarios profile world st))
        \<or> BenchmarkResult.Model r \<in> set rest"
    by simp
  with scenarioLoop_models [of r model scenarios profile world results current] st
  show ?case by auto
qed

lemma runLowSpecBenchmarks_models:
  "r \<in> set (runLowSpecBenchmarks models scenarios profile world) \<Longrightarrow>
   BenchmarkResult.Model r \<in> set models"
  using modelLoop_models [of r models scenarios profile world "([], 0)"]
  by (simp add: runLowSpecBenchmarks_def)






section \<open>The recorded memory delta\<close>

text \<open>
  C1. The claim: the recorded peak memory delta is the available memory sampled
  before the process starts minus the available memory sampled after it exits, so
  that a process that consumes memory yields a positive delta.

  The code subtracts the other way round (\<open>runLowSpecTest_PeakMemoryMB\<close>): the
  second sample minus the first, both samples being the memory available. On a
  run during which the available memory drops from 8000 MB to 6000 MB the
  difference before minus after is 2000 MB, the recorded \<^verbatim>\<open>PeakMemoryMB\<close> is
  \<open>-2000\<close>, and the risk class of the result is \<open>unknown\<close>.
\<close>

theorem runLowSpecTest_delta_is_after_minus_before:
  "memAvailableBefore consumingRun - memAvailableAfter consumingRun = 2000
   \<and> consumingResult = runLowSpecTest ''orca-mini:3b'' captureScenario laptopProfile consumingRun
   \<and> PeakMemoryMB consumingResult = - 2000
   \<and> OOMRisk consumingResult = ''unknown''"
  by (simp add: consumingResult_def runLowSpecTest_PeakMemoryMB runLowSpecTest_OOMRisk
      assessOOMRisk_def consumingRun_def)

section \<open>The out-of-memory risk classes\<close>

lemma assessOOMRisk_ratio:
  assumes "0 < memoryUsed" and "0 < availableMemory"
    and "r = (of_int memoryUsed :: rat) / of_int availableMemory"
  shows "assessOOMRisk memoryUsed availableMemory =
           (if r < 5 / 10 then ''low'' else if r < 8 / 10 then ''medium'' else ''high'')"
  unfolding assessOOMRisk_def Let_def assms(3)[symmetric]
  using assms(1,2) by simp

lemma assessOOMRisk_mono:
  assumes "0 < m1" and "0 < a1" and "0 < m2" and "0 < a2"
    and "(of_int m1 :: rat) / of_int a1 \<le> of_int m2 / of_int a2"
  shows "riskLevel (assessOOMRisk m1 a1) \<le> riskLevel (assessOOMRisk m2 a2)"
proof -
  define r1 where "r1 = (of_int m1 :: rat) / of_int a1"
  define r2 where "r2 = (of_int m2 :: rat) / of_int a2"
  have le: "r1 \<le> r2"
    using assms(5) unfolding r1_def r2_def .
  show ?thesis
    unfolding assessOOMRisk_ratio [OF assms(1,2) r1_def]
      assessOOMRisk_ratio [OF assms(3,4) r2_def]
    using le by (auto simp: riskLevel_def)
qed

text \<open>
  C4. For \<open>memoryUsed > 0\<close> and \<open>availableRAM > 0\<close>, \<open>assessOOMRisk\<close> returns
  \<open>low\<close> exactly when the ratio \<open>memoryUsed / availableRAM\<close> is below 0.5,
  \<open>medium\<close> exactly when it is in \<open>[0.5, 0.8)\<close> and \<open>high\<close> exactly when it
  is at least 0.8; the class is monotonic in the ratio (a larger ratio never gives
  a lower class); and 3600 MB used of 4096 MB available is \<open>high\<close>.
\<close>

theorem assessOOMRisk_bands:
  assumes "0 < memoryUsed" and "0 < availableMemory"
  shows "((assessOOMRisk memoryUsed availableMemory = ''low'')
            = ((of_int memoryUsed :: rat) / of_int availableMemory < 5 / 10))
       \<and> ((assessOOMRisk memoryUsed availableMemory = ''medium'')
            = (5 / 10 \<le> (of_int memoryUsed :: rat) / of_int availableMemory
               \<and> (of_int memoryUsed :: rat) / of_int availableMemory < 8 / 10))
       \<and> ((assessOOMRisk memoryUsed availableMemory = ''high'')
            = (8 / 10 \<le> (of_int memoryUsed :: rat) / of_int availableMemory))
       \<and> (\<forall>m a. 0 < m \<longrightarrow> 0 < a \<longrightarrow>
              (of_int memoryUsed :: rat) / of_int availableMemory \<le> of_int m / of_int a \<longrightarrow>
              riskLevel (assessOOMRisk memoryUsed availableMemory)
                \<le> riskLevel (assessOOMRisk m a))
       \<and> assessOOMRisk 3600 4096 = ''high''"
proof -
  define r where "r = (of_int memoryUsed :: rat) / of_int availableMemory"
  have eq: "assessOOMRisk memoryUsed availableMemory =
           (if r < 5 / 10 then ''low'' else if r < 8 / 10 then ''medium'' else ''high'')"
    using assessOOMRisk_ratio [OF assms r_def] .
  have inst: "assessOOMRisk 3600 4096 = ''high''"
    by (simp add: assessOOMRisk_def)
  have classes: "((assessOOMRisk memoryUsed availableMemory = ''low'') = (r < 5 / 10))
       \<and> ((assessOOMRisk memoryUsed availableMemory = ''medium'') = (5 / 10 \<le> r \<and> r < 8 / 10))
       \<and> ((assessOOMRisk memoryUsed availableMemory = ''high'') = (8 / 10 \<le> r))"
    unfolding eq by auto
  have mono: "\<forall>m a. 0 < m \<longrightarrow> 0 < a \<longrightarrow> r \<le> of_int m / of_int a \<longrightarrow>
      riskLevel (assessOOMRisk memoryUsed availableMemory) \<le> riskLevel (assessOOMRisk m a)"
    using assessOOMRisk_mono [OF assms] unfolding r_def by blast
  from classes mono inst show ?thesis
    unfolding r_def by blast
qed

theorem assessOOMRisk_bands_witness:
  "assessOOMRisk 1228 4096 = ''low'' \<and> assessOOMRisk 2458 4096 = ''medium''
   \<and> assessOOMRisk 3687 4096 = ''high''
   \<and> riskLevel (assessOOMRisk 1228 4096) \<le> riskLevel (assessOOMRisk 3687 4096)"
  using assessOOMRisk_bands [of 1228 4096] assessOOMRisk_bands [of 2458 4096]
    assessOOMRisk_bands [of 3687 4096]
  by (simp add: riskLevel_def)

text \<open>
  C9. When \<open>memoryUsed \<le> 0\<close> or \<open>availableRAM \<le> 0\<close>, \<open>assessOOMRisk\<close>
  returns \<open>unknown\<close>, a value that is none of \<open>low\<close>, \<open>medium\<close>, \<open>high\<close>;
  in particular every result of \<open>runLowSpecTest\<close> whose recorded memory delta is
  not positive carries the risk class \<open>unknown\<close>.
\<close>

theorem assessOOMRisk_unknown:
  assumes "memoryUsed \<le> 0 \<or> availableMemory \<le> 0"
  shows "assessOOMRisk memoryUsed availableMemory = ''unknown''
       \<and> ''unknown'' \<notin> {''low'', ''medium'', ''high''}
       \<and> (PeakMemoryMB (runLowSpecTest model scenario profile obs) \<le> 0 \<longrightarrow>
            OOMRisk (runLowSpecTest model scenario profile obs) = ''unknown'')"
  using assms by (auto simp: runLowSpecTest_OOMRisk assessOOMRisk_def)

theorem assessOOMRisk_unknown_witness:
  "assessOOMRisk (- 2000) 4096 = ''unknown'' \<and> assessOOMRisk 0 4096 = ''unknown''
   \<and> assessOOMRisk 512 0 = ''unknown''
   \<and> PeakMemoryMB (runLowSpecTest ''orca-mini:3b'' captureScenario laptopProfile slowRun) = 0
   \<and> OOMRisk (runLowSpecTest ''orca-mini:3b'' captureScenario laptopProfile slowRun)
       = ''unknown''"
  using assessOOMRisk_unknown [of "- 2000" 4096] assessOOMRisk_unknown [of 0 4096]
    assessOOMRisk_unknown [of 512 0 "''orca-mini:3b''" captureScenario laptopProfile slowRun]
  by (simp add: runLowSpecTest_PeakMemoryMB slowRun_def)

subsection \<open>Rounding does not change the class\<close>

text \<open>
  With every \<^verbatim>\<open>float64\<close> conversion, the division and the constants 0.5 and 0.8
  rounded, \<open>assessOOMRisk\<close> returns the class it returns on exact rationals,
  whenever the memory used is below \<open>2 ^ 53\<close> MB and the available memory is
  below \<open>2 ^ 48\<close> MB. (A ratio below a threshold is below it by at least
  \<open>1 / (5 * availableMemory)\<close>, more than the spacing of \<^verbatim>\<open>float64\<close> there.)
\<close>

lemma dyadic53_int: "\<bar>n\<bar> < 9007199254740992 \<Longrightarrow> dyadic53 (of_int n)"
  unfolding dyadic53_def by (rule exI [of _ n], rule exI [of _ 0]) simp

lemma dyadic53_frac:
  "\<bar>n\<bar> < 9007199254740992 \<Longrightarrow> k \<le> 1074 \<Longrightarrow> dyadic53 (of_int n / 2 ^ k)"
  unfolding dyadic53_def by blast

lemma rounded_below:
  assumes "faithfulRounding rnd" and "x \<le> z" and "dyadic53 z"
  shows "rnd x \<le> z"
  using assms unfolding faithfulRounding_def by metis

lemma rounded_above:
  assumes "faithfulRounding rnd" and "z \<le> x" and "dyadic53 z"
  shows "z \<le> rnd x"
  using assms unfolding faithfulRounding_def by metis

lemma ratio_gap_half:
  assumes "0 < a" and "(of_int m :: rat) / of_int a < 1 / 2"
  shows "(of_int m :: rat) / of_int a \<le> 1 / 2 - 1 / (2 * of_int a)"
proof -
  from assms have "2 * m < a"
    by (simp add: field_simps)
  then have "2 * m + 1 \<le> a" by simp
  then have "(of_int (2 * m + 1) :: rat) \<le> of_int a"
    by (simp only: of_int_le_iff)
  with assms(1) show ?thesis
    by (simp add: field_simps)
qed

lemma ratio_gap_four_fifths:
  assumes "0 < a" and "(of_int m :: rat) / of_int a < 4 / 5"
  shows "(of_int m :: rat) / of_int a \<le> 4 / 5 - 1 / (5 * of_int a)"
proof -
  from assms have "(of_int (5 * m) :: rat) < of_int (4 * a)"
    by (simp add: field_simps)
  then have "5 * m < 4 * a"
    by (simp only: of_int_less_iff)
  then have "5 * m + 1 \<le> 4 * a" by simp
  then have "(of_int (5 * m + 1) :: rat) \<le> of_int (4 * a)"
    by (simp only: of_int_le_iff)
  with assms(1) show ?thesis
    by (simp add: field_simps)
qed

lemma inverse_bound:
  assumes "0 < a" and "a < 281474976710656"
  shows "(1 :: rat) / 281474976710656 < 1 / of_int a"
proof -
  from assms have "(of_int a :: rat) < 281474976710656" "(0::rat) < of_int a"
    by simp_all
  then show ?thesis
    by (simp add: field_simps)
qed

lemma assessOOMRisk_rounded_eq:
  assumes f: "faithfulRounding rnd"
    and m: "memoryUsed < 9007199254740992"
    and a: "availableMemory < 281474976710656"
  shows "assessOOMRisk_rounded rnd memoryUsed availableMemory
           = assessOOMRisk memoryUsed availableMemory"
proof (cases "memoryUsed \<le> 0 \<or> availableMemory \<le> 0")
  case True
  then show ?thesis
    by (auto simp: assessOOMRisk_rounded_def assessOOMRisk_def)
next
  case False
  then have mpos: "0 < memoryUsed" and apos: "0 < availableMemory"
    by simp_all
  define x where "x = (of_int memoryUsed :: rat) / of_int availableMemory"
  have cm: "rnd (of_int memoryUsed) = of_int memoryUsed"
    using f m mpos dyadic53_int [of memoryUsed] unfolding faithfulRounding_def by simp
  have ca: "rnd (of_int availableMemory) = of_int availableMemory"
    using f a apos dyadic53_int [of availableMemory] unfolding faithfulRounding_def by simp
  have half: "rnd (5 / 10) = 5 / 10"
    using f dyadic53_frac [of 1 1] unfolding faithfulRounding_def by simp
  have inv: "(1 :: rat) / 281474976710656 < 1 / of_int availableMemory"
    using inverse_bound [OF apos a] .
  have low: "(rnd x < 5 / 10) = (x < 5 / 10)"
  proof
    assume "rnd x < 5 / 10"
    show "x < 5 / 10"
    proof (rule ccontr)
      assume "\<not> x < 5 / 10"
      then have "1 / 2 \<le> x" by simp
      from rounded_above [OF f this] dyadic53_frac [of 1 1] have "1 / 2 \<le> rnd x" by simp
      with \<open>rnd x < 5 / 10\<close> show False by simp
    qed
  next
    assume "x < 5 / 10"
    then have "x \<le> 1 / 2 - 1 / (2 * of_int availableMemory)"
      using ratio_gap_half [OF apos, of memoryUsed] unfolding x_def by simp
    with inv have "x \<le> 281474976710655 / 2 ^ 49"
      by (simp add: field_simps)
    from rounded_below [OF f this] dyadic53_frac [of 281474976710655 49]
    have "rnd x \<le> 281474976710655 / 2 ^ 49" by simp
    then show "rnd x < 5 / 10" by simp
  qed
  have med: "(rnd x < rnd (8 / 10)) = (x < 8 / 10)"
  proof
    assume r: "rnd x < rnd (8 / 10)"
    show "x < 8 / 10"
    proof (rule ccontr)
      assume "\<not> x < 8 / 10"
      then have "8 / 10 \<le> x" by simp
      with f have "rnd (8 / 10) \<le> rnd x"
        unfolding faithfulRounding_def by blast
      with r show False by simp
    qed
  next
    assume "x < 8 / 10"
    then have "x \<le> 4 / 5 - 1 / (5 * of_int availableMemory)"
      using ratio_gap_four_fifths [OF apos, of memoryUsed] unfolding x_def by simp
    with inv have "x \<le> 3602879701896395 / 2 ^ 52"
      by (simp add: field_simps)
    from rounded_below [OF f this] dyadic53_frac [of 3602879701896395 52]
    have 1: "rnd x \<le> 3602879701896395 / 2 ^ 52" by simp
    have "(3602879701896396 :: rat) / 2 ^ 52 \<le> 8 / 10" by simp
    from rounded_above [OF f this] dyadic53_frac [of 3602879701896396 52]
    have 2: "3602879701896396 / 2 ^ 52 \<le> rnd (8 / 10)" by simp
    from 1 2 show "rnd x < rnd (8 / 10)" by simp
  qed
  from False show ?thesis
    unfolding assessOOMRisk_rounded_def assessOOMRisk_def Let_def cm ca half
    using low med unfolding x_def by simp
qed

lemma faithfulRounding_id: "faithfulRounding (\<lambda>x. x)"
  by (simp add: faithfulRounding_def)

section \<open>The ranking step of the low-spec benchmark\<close>

lemma groupLoop_lookup:
  "groupLoop results m key =
     (if groupOf key results = [] then m key
      else Some ((case m key of None \<Rightarrow> [] | Some rs \<Rightarrow> rs) @ groupOf key results))"
proof (induction results arbitrary: m)
  case Nil
  then show ?case by (simp add: groupOf_def)
next
  case (Cons r rest)
  show ?case
    by (simp add: Cons.IH Let_def groupOf_def)
qed

lemma groupOf_set:
  "set (groupOf key results) = {r \<in> set results. Success r \<and> ToLower (TestCase r) = key}"
  by (auto simp: groupOf_def)

lemma optimalLoop_cases:
  "(optimalLoop p rs (bm, bs) = (bm, bs) \<and> (\<forall>r\<in>set rs. adjustedScore p r \<le> bs))
   \<or> (\<exists>r\<in>set rs. optimalLoop p rs (bm, bs) = (BenchmarkResult.Model r, adjustedScore p r)
         \<and> bs < adjustedScore p r \<and> (\<forall>r'\<in>set rs. adjustedScore p r' \<le> adjustedScore p r))"
proof (induction rs arbitrary: bm bs)
  case Nil
  then show ?case by simp
next
  case (Cons r rest)
  show ?case
  proof (cases "adjustedScore p r > bs")
    case True
    from Cons.IH [of "BenchmarkResult.Model r" "adjustedScore p r"] True
    show ?thesis by (auto simp: Let_def intro: order.trans less_imp_le)
  next
    case False
    from Cons.IH [of bm bs] False
    show ?thesis by (auto simp: Let_def intro: order.trans less_imp_le)
  qed
qed

lemma optimalLoop_unchanged:
  "\<forall>r\<in>set rs. adjustedScore p r \<le> bs \<Longrightarrow> optimalLoop p rs (bm, bs) = (bm, bs)"
  by (induction rs) (auto simp: Let_def)

lemma optimalLoop_first_max:
  assumes "i < length rs"
    and "bs < adjustedScore p (rs ! i)"
    and "\<forall>j<length rs. adjustedScore p (rs ! j) \<le> adjustedScore p (rs ! i)"
    and "\<forall>j<i. adjustedScore p (rs ! j) < adjustedScore p (rs ! i)"
  shows "optimalLoop p rs (bm, bs) = (BenchmarkResult.Model (rs ! i), adjustedScore p (rs ! i))"
  using assms
proof (induction rs arbitrary: i bm bs)
  case Nil
  then show ?case by simp
next
  case (Cons r rest)
  show ?case
  proof (cases i)
    case 0
    have "\<forall>x\<in>set rest. adjustedScore p x \<le> adjustedScore p r"
    proof
      fix x assume "x \<in> set rest"
      then obtain j where "j < length rest" "rest ! j = x"
        by (auto simp: in_set_conv_nth)
      with Cons.prems(3) 0 show "adjustedScore p x \<le> adjustedScore p r"
        by (metis length_Cons not_less_eq nth_Cons_0 nth_Cons_Suc)
    qed
    with Cons.prems(2) 0 show ?thesis
      by (simp add: optimalLoop_unchanged)
  next
    case (Suc i')
    have lt: "adjustedScore p r < adjustedScore p (rest ! i')"
      using Cons.prems(4) Suc by (metis nth_Cons_0 nth_Cons_Suc zero_less_Suc)
    have p1: "i' < length rest"
      using Cons.prems(1) Suc by simp
    have p3: "\<forall>j<length rest. adjustedScore p (rest ! j) \<le> adjustedScore p (rest ! i')"
      using Cons.prems(3) Suc by (metis Suc_less_eq length_Cons nth_Cons_Suc)
    have p4: "\<forall>j<i'. adjustedScore p (rest ! j) < adjustedScore p (rest ! i')"
      using Cons.prems(4) Suc by (metis Suc_less_eq nth_Cons_Suc)
    show ?thesis
    proof (cases "adjustedScore p r > bs")
      case True
      then show ?thesis
        using Cons.IH [OF p1 lt p3 p4] Suc by simp
    next
      case False
      have p2: "bs < adjustedScore p (rest ! i')"
        using Cons.prems(2) Suc by simp
      from False show ?thesis
        using Cons.IH [OF p1 p2 p3 p4] Suc by simp
    qed
  qed
qed

lemma findOptimal_Nil: "findOptimalModelForUseCase [] profile = []"
  by (simp add: findOptimalModelForUseCase_def)

lemma OptimalModels_lookup:
  "OptimalModels (generateLowSpecSummary results profile) key =
     (if findOptimalModelForUseCase (groupOf key results) profile \<noteq> []
      then Some (findOptimalModelForUseCase (groupOf key results) profile) else None)"
  by (simp add: generateLowSpecSummary_def groupLoop_lookup Let_def findOptimal_Nil)

lemma findOptimal_winner:
  assumes "findOptimalModelForUseCase rs profile \<noteq> []"
  shows "\<exists>r\<in>set rs. BenchmarkResult.Model r = findOptimalModelForUseCase rs profile
           \<and> 0 < adjustedScore profile r
           \<and> (\<forall>r'\<in>set rs. adjustedScore profile r' \<le> adjustedScore profile r)"
proof -
  from assms have ne: "rs \<noteq> []"
    by (auto simp: findOptimalModelForUseCase_def)
  from optimalLoop_cases [of profile rs "[]" 0] assms ne show ?thesis
    by (auto simp: findOptimalModelForUseCase_def)
qed


text \<open>
  In the low-spec benchmark a model is a winner only through one of its successful
  results: a model all of whose results failed is in no entry of \<^verbatim>\<open>OptimalModels\<close>.
\<close>

lemma generateLowSpecSummary_winner_succeeded:
  assumes "OptimalModels (generateLowSpecSummary results profile) key = Some m"
  shows "\<exists>r\<in>set results. Success r \<and> BenchmarkResult.Model r = m"
proof -
  from assms have ne: "findOptimalModelForUseCase (groupOf key results) profile \<noteq> []"
    and m: "m = findOptimalModelForUseCase (groupOf key results) profile"
    by (auto simp: OptimalModels_lookup split: if_splits)
  from findOptimal_winner [OF ne] m show ?thesis
    unfolding groupOf_set by auto
qed

subsection \<open>The sample results\<close>

lemma consumingResult_facts:
  "Success consumingResult \<and> BenchmarkResult.Model consumingResult = ''orca-mini:3b''
   \<and> ToLower (TestCase consumingResult) = ''ultra-fast capture''
   \<and> adjustedScore laptopProfile consumingResult = 454 / 100"
  by code_simp

lemma slowResult_facts:
  "Success slowResult \<and> BenchmarkResult.Model slowResult = ''llama2:13b''
   \<and> ToLower (TestCase slowResult) = ''ultra-fast capture''
   \<and> adjustedScore laptopProfile slowResult = 9 / 10
   \<and> ResponseTime slowResult = 50 * Second"
  by code_simp

lemma lessSlowResult_facts:
  "Success lessSlowResult \<and> BenchmarkResult.Model lessSlowResult = ''orca-mini:3b''
   \<and> ToLower (TestCase lessSlowResult) = ''ultra-fast capture''
   \<and> adjustedScore laptopProfile lessSlowResult = 9 / 10
   \<and> ResponseTime lessSlowResult = 45 * Second"
  by code_simp

section \<open>Grouping and the best-model map\<close>








section \<open>Ties in the ranking step\<close>

text \<open>
  C5, as the code has it. \<open>findOptimalModelForUseCase\<close> returns the model of the
  first result, in the order of the result list, that attains the highest adjusted
  score, provided that score is positive. Among results of equal highest score the
  earliest one wins; response times and failed runs play no part.
\<close>

theorem findOptimalModelForUseCase_first_maximum:
  assumes "i < length results"
    and "0 < adjustedScore profile (results ! i)"
    and "\<forall>j<length results. adjustedScore profile (results ! j) \<le> adjustedScore profile (results ! i)"
    and "\<forall>j<i. adjustedScore profile (results ! j) < adjustedScore profile (results ! i)"
  shows "findOptimalModelForUseCase results profile = BenchmarkResult.Model (results ! i)"
proof -
  from assms(1) have "length results \<noteq> 0" by auto
  then show ?thesis
    using optimalLoop_first_max [OF assms, of "[]"]
    by (simp add: findOptimalModelForUseCase_def)
qed

theorem findOptimalModelForUseCase_first_maximum_witness:
  "adjustedScore laptopProfile slowResult = adjustedScore laptopProfile lessSlowResult
   \<and> 0 < adjustedScore laptopProfile slowResult
   \<and> findOptimalModelForUseCase [slowResult, lessSlowResult] laptopProfile = ''llama2:13b''
   \<and> findOptimalModelForUseCase [lessSlowResult, slowResult] laptopProfile = ''orca-mini:3b''"
proof -
  have h2: "0 < adjustedScore laptopProfile ([slowResult, lessSlowResult] ! 0)"
    and h2': "0 < adjustedScore laptopProfile ([lessSlowResult, slowResult] ! 0)"
    using slowResult_facts lessSlowResult_facts by simp_all
  have h3: "\<forall>j<length [slowResult, lessSlowResult].
      adjustedScore laptopProfile ([slowResult, lessSlowResult] ! j)
        \<le> adjustedScore laptopProfile ([slowResult, lessSlowResult] ! 0)"
    and h3': "\<forall>j<length [lessSlowResult, slowResult].
      adjustedScore laptopProfile ([lessSlowResult, slowResult] ! j)
        \<le> adjustedScore laptopProfile ([lessSlowResult, slowResult] ! 0)"
    using slowResult_facts lessSlowResult_facts by (simp_all add: less_Suc_eq)
  have a: "findOptimalModelForUseCase [slowResult, lessSlowResult] laptopProfile
             = BenchmarkResult.Model ([slowResult, lessSlowResult] ! 0)"
    by (rule findOptimalModelForUseCase_first_maximum [OF _ h2 h3]) simp_all
  have b: "findOptimalModelForUseCase [lessSlowResult, slowResult] laptopProfile
             = BenchmarkResult.Model ([lessSlowResult, slowResult] ! 0)"
    by (rule findOptimalModelForUseCase_first_maximum [OF _ h2' h3']) simp_all
  from a b slowResult_facts lessSlowResult_facts show ?thesis
    by simp
qed

text \<open>
  C5 as stated fails. Two models succeed on the same scenario with the same
  adjusted score, neither has a failed run, and the second answers in 45 s against
  50 s: the first one, the slower, is selected.
\<close>

theorem tie_break_counterexample:
  "slowResult = runLowSpecTest ''llama2:13b'' captureScenario laptopProfile slowRun
   \<and> lessSlowResult = runLowSpecTest ''orca-mini:3b'' captureScenario laptopProfile lessSlowRun
   \<and> Success slowResult \<and> Success lessSlowResult
   \<and> adjustedScore laptopProfile slowResult = adjustedScore laptopProfile lessSlowResult
   \<and> ResponseTime lessSlowResult < ResponseTime slowResult
   \<and> BenchmarkResult.Model lessSlowResult = ''orca-mini:3b''
   \<and> findOptimalModelForUseCase [slowResult, lessSlowResult] laptopProfile = ''llama2:13b''
   \<and> OptimalModels (generateLowSpecSummary [slowResult, lessSlowResult] laptopProfile)
        ''ultra-fast capture'' = Some ''llama2:13b''"
proof -
  have f: "findOptimalModelForUseCase [slowResult, lessSlowResult] laptopProfile = ''llama2:13b''"
    by code_simp
  have k: "OptimalModels (generateLowSpecSummary [slowResult, lessSlowResult] laptopProfile)
        ''ultra-fast capture'' = Some ''llama2:13b''"
    using slowResult_facts lessSlowResult_facts f
    by (simp add: OptimalModels_lookup groupOf_def)
  from f k slowResult_facts lessSlowResult_facts show ?thesis
    by (simp add: slowResult_def lessSlowResult_def Second_def)
qed

section \<open>The usability score\<close>

lemma runLowSpecTest_success_fields:
  assumes "Success (runLowSpecTest model scenario profile obs)"
  shows "UsabilityScore (runLowSpecTest model scenario profile obs) =
           calculateUsabilityScore (ResponseTime (runLowSpecTest model scenario profile obs))
             (QualityScore (runLowSpecTest model scenario profile obs)) (Priority scenario)"
proof -
  from assms have "cmdErr obs = None"
    by (simp add: runLowSpecTest_Success)
  then show ?thesis
    by (simp add: runLowSpecTest_def Let_def)
qed

text \<open>
  C8. For every successful result of \<open>runLowSpecTest\<close> the usability score is
  \<open>w\<^sub>t * timeScore + w\<^sub>q * qualityScore\<close> with
  \<open>timeScore = max 1 (5 - seconds / 10)\<close>, where \<open>(w\<^sub>t, w\<^sub>q)\<close> is
  \<open>(0.7, 0.3)\<close> for a scenario of priority \<open>speed\<close>, \<open>(0.3, 0.7)\<close> for
  \<open>quality\<close> and \<open>(0.5, 0.5)\<close> for \<open>memory\<close>.
\<close>

theorem runLowSpecTest_usability_score:
  assumes "result = runLowSpecTest model scenario profile obs" and "Success result"
  shows "(Priority scenario = ''speed'' \<longrightarrow>
            UsabilityScore result =
              7 / 10 * max 1 (5 - Seconds (ResponseTime result) / 10) + 3 / 10 * QualityScore result)
       \<and> (Priority scenario = ''quality'' \<longrightarrow>
            UsabilityScore result =
              3 / 10 * max 1 (5 - Seconds (ResponseTime result) / 10) + 7 / 10 * QualityScore result)
       \<and> (Priority scenario = ''memory'' \<longrightarrow>
            UsabilityScore result =
              5 / 10 * max 1 (5 - Seconds (ResponseTime result) / 10) + 5 / 10 * QualityScore result)"
proof -
  have "UsabilityScore result =
      calculateUsabilityScore (ResponseTime result) (QualityScore result) (Priority scenario)"
    using assms runLowSpecTest_success_fields by simp
  then show ?thesis
    by (auto simp: calculateUsabilityScore_def Let_def max_def)
qed

theorem runLowSpecTest_usability_score_witness:
  "Success consumingResult \<and> Priority captureScenario = ''speed''
   \<and> Seconds (ResponseTime consumingResult) = 3 \<and> QualityScore consumingResult = 5 / 2
   \<and> UsabilityScore consumingResult = 7 / 10 * (47 / 10) + 3 / 10 * (5 / 2)"
proof -
  have s: "Success consumingResult"
    using consumingResult_facts by simp
  have p: "Priority captureScenario = ''speed''"
    by code_simp
  have v: "Seconds (ResponseTime consumingResult) = 3 \<and> QualityScore consumingResult = 5 / 2"
    by code_simp
  from runLowSpecTest_usability_score [OF consumingResult_def s] p v s show ?thesis
    by simp
qed

section \<open>The quality score\<close>

lemma assessOutputQuality_ratio:
  assumes "r = (of_int (int (length output)) :: rat) / of_int (expectedLength useCase)"
  shows "assessOutputQuality output useCase =
     (if r < 3 / 10 then 1 else if r < 7 / 10 then 25 / 10
      else if r \<le> 15 / 10 then 4 else if r \<le> 2 then 3 else 2)"
  unfolding assessOutputQuality_def Let_def assms by simp

text \<open>
  C6, as the code has it. \<open>assessOutputQuality\<close> is the five-band value of the
  ratio of the output's length to the expected length of the use case (below 0.3:
  1, below 0.7: 2.5, up to 1.5: 4, up to 2: 3, beyond: 2) and nothing else: two
  outputs of the same length get the same score for a use case, whatever their
  structure or vocabulary.
\<close>

theorem assessOutputQuality_length_only:
  "((assessOutputQuality output useCase = 1)
       = ((of_nat (length output) :: rat) / of_int (expectedLength useCase) < 3 / 10))
   \<and> ((assessOutputQuality output useCase = 25 / 10)
       = (3 / 10 \<le> (of_nat (length output) :: rat) / of_int (expectedLength useCase)
          \<and> (of_nat (length output) :: rat) / of_int (expectedLength useCase) < 7 / 10))
   \<and> ((assessOutputQuality output useCase = 4)
       = (7 / 10 \<le> (of_nat (length output) :: rat) / of_int (expectedLength useCase)
          \<and> (of_nat (length output) :: rat) / of_int (expectedLength useCase) \<le> 15 / 10))
   \<and> ((assessOutputQuality output useCase = 3)
       = (15 / 10 < (of_nat (length output) :: rat) / of_int (expectedLength useCase)
          \<and> (of_nat (length output) :: rat) / of_int (expectedLength useCase) \<le> 2))
   \<and> ((assessOutputQuality output useCase = 2)
       = (2 < (of_nat (length output) :: rat) / of_int (expectedLength useCase)))
   \<and> (\<forall>output'. length output' = length output \<longrightarrow>
         assessOutputQuality output' useCase = assessOutputQuality output useCase)"
proof -
  define r where "r = (of_int (int (length output)) :: rat) / of_int (expectedLength useCase)"
  have r': "(of_nat (length output) :: rat) / of_int (expectedLength useCase) = r"
    by (simp add: r_def)
  have eq: "assessOutputQuality output useCase =
     (if r < 3 / 10 then 1 else if r < 7 / 10 then 25 / 10
      else if r \<le> 15 / 10 then 4 else if r \<le> 2 then 3 else 2)"
    by (rule assessOutputQuality_ratio [OF r_def])
  have bands: "((assessOutputQuality output useCase = 1) = (r < 3 / 10))
   \<and> ((assessOutputQuality output useCase = 25 / 10) = (3 / 10 \<le> r \<and> r < 7 / 10))
   \<and> ((assessOutputQuality output useCase = 4) = (7 / 10 \<le> r \<and> r \<le> 15 / 10))
   \<and> ((assessOutputQuality output useCase = 3) = (15 / 10 < r \<and> r \<le> 2))
   \<and> ((assessOutputQuality output useCase = 2) = (2 < r))"
    unfolding eq by auto
  have same: "\<forall>output'. length output' = length output \<longrightarrow>
         assessOutputQuality output' useCase = assessOutputQuality output useCase"
    by (simp add: assessOutputQuality_def)
  from bands same show ?thesis
    unfolding r' by blast
qed

theorem assessOutputQuality_length_only_witness:
  "length structuredOutput = length plainOutput
   \<and> (of_nat (length plainOutput) :: rat) / of_int (expectedLength ''capture'') = 8 / 10
   \<and> assessOutputQuality plainOutput ''capture'' = 4
   \<and> assessOutputQuality structuredOutput ''capture'' = 4"
proof -
  have l: "length structuredOutput = length plainOutput"
    by code_simp
  have r: "(of_nat (length plainOutput) :: rat) / of_int (expectedLength ''capture'') = 8 / 10"
    by code_simp
  note t = assessOutputQuality_length_only [of plainOutput "''capture''"]
  from t r have q: "assessOutputQuality plainOutput ''capture'' = 4"
    by simp
  from t l have "assessOutputQuality structuredOutput ''capture''
      = assessOutputQuality plainOutput ''capture''"
    by blast
  with q l r show ?thesis by simp
qed

text \<open>
  C6 as stated fails. Of two outputs of 80 bytes, one with a markdown header, a
  bullet and technical terms, the other plain prose with none of them, both get the
  bare band value for the short use cases \<open>capture\<close> and \<open>social\<close> and for
  the long-form use case \<open>devlog\<close>: structure and vocabulary change nothing.
\<close>

theorem quality_adjustment_counterexample:
  "Contains structuredOutput ''##'' \<and> Contains structuredOutput ''- ''
   \<and> Contains (ToLower structuredOutput) ''api'' \<and> Contains (ToLower structuredOutput) ''server''
   \<and> \<not> Contains plainOutput ''##'' \<and> \<not> Contains plainOutput ''- ''
   \<and> \<not> Contains (ToLower plainOutput) ''api'' \<and> \<not> Contains (ToLower plainOutput) ''server''
   \<and> length structuredOutput = length plainOutput
   \<and> assessOutputQuality structuredOutput ''capture'' = 4
   \<and> assessOutputQuality plainOutput ''capture'' = 4
   \<and> assessOutputQuality structuredOutput ''social'' = 25 / 10
   \<and> assessOutputQuality plainOutput ''social'' = 25 / 10
   \<and> assessOutputQuality structuredOutput ''devlog'' = 1
   \<and> assessOutputQuality plainOutput ''devlog'' = 1"
  by code_simp

section \<open>Model discovery\<close>

text \<open>
  C10. \<open>getAvailableModels\<close> returns the listed names that do not contain
  \<open>embedding\<close>, in the order of the listing (and nothing when the listing
  command fails): no returned name contains \<open>embedding\<close>, and no result of a
  benchmark run over the returned models belongs to such a model.
\<close>

theorem getAvailableModels_excludes_embedding:
  "getAvailableModels None = []
   \<and> getAvailableModels (Some output) =
       filter (\<lambda>name. \<not> Contains name ''embedding'') (listedNames (tl (SplitLines output)))
   \<and> (\<forall>name \<in> set (getAvailableModels listing). \<not> Contains name ''embedding'')
   \<and> (\<forall>r \<in> set (runLowSpecBenchmarks (getAvailableModels listing) scenarios profile world).
         \<not> Contains (BenchmarkResult.Model r) ''embedding'')"
proof -
  have a: "getAvailableModels None = []"
    by (simp add: getAvailableModels_def)
  have b: "\<And>out. getAvailableModels (Some out) =
       filter (\<lambda>name. \<not> Contains name ''embedding'') (listedNames (tl (SplitLines out)))"
    by (simp add: getAvailableModels_def modelsFrom_filter)
  have c: "\<forall>name \<in> set (getAvailableModels listing). \<not> Contains name ''embedding''"
    by (cases listing) (simp_all add: a b)
  have d: "\<forall>r \<in> set (runLowSpecBenchmarks (getAvailableModels listing) scenarios profile world).
         \<not> Contains (BenchmarkResult.Model r) ''embedding''"
    using c runLowSpecBenchmarks_models by blast
  from a b c d show ?thesis by blast
qed

theorem getAvailableModels_excludes_embedding_witness:
  "listedNames (tl (SplitLines ollamaListing)) = [''granite-embedding:30m'', ''orca-mini:3b'']
   \<and> Contains ''granite-embedding:30m'' ''embedding''
   \<and> getAvailableModels (Some ollamaListing) = [''orca-mini:3b'']
   \<and> runLowSpecBenchmarks (getAvailableModels (Some ollamaListing)) [captureScenario]
        laptopProfile (\<lambda>n. consumingRun) = [consumingResult]"
proof -
  have l: "listedNames (tl (SplitLines ollamaListing)) = [''granite-embedding:30m'', ''orca-mini:3b'']"
    by code_simp
  have c: "Contains ''granite-embedding:30m'' ''embedding'' \<and> \<not> Contains ''orca-mini:3b'' ''embedding''"
    by code_simp
  note t = getAvailableModels_excludes_embedding [of ollamaListing "Some ollamaListing"
      "[captureScenario]" laptopProfile "\<lambda>n. consumingRun"]
  from t l c have g: "getAvailableModels (Some ollamaListing) = [''orca-mini:3b'']"
    by simp
  have "runLowSpecBenchmarks [''orca-mini:3b''] [captureScenario]
        laptopProfile (\<lambda>n. consumingRun) = [consumingResult]"
    by (simp add: runLowSpecBenchmarks_def Let_def consumingResult_def)
  with l c g show ?thesis by simp
qed

section \<open>A model whose runs all failed\<close>

text \<open>
  The divisor of the average response time is the truncated product of the
  rounded success rate and the count. For one success in 49 runs the rate is the
  \<^verbatim>\<open>float64\<close> nearest to \<open>1 / 49\<close>, its product with 49 rounds to the
  \<^verbatim>\<open>float64\<close> just below 1, the divisor is 0 and the division panics; for one
  success in 2 runs the divisor is the number of successes.
\<close>

lemma finalizePerf_divide_by_zero:
  "finalizePerf \<lparr>successRate = 1, avgResponseTime = 3000000000, count = 49\<rparr>
     = Inl DivideByZero"
  by code_simp

lemma finalizePerf_average:
  "finalizePerf \<lparr>successRate = 1, avgResponseTime = 3000000000, count = 2\<rparr>
     = Inr \<lparr>successRate = 1 / 2, avgResponseTime = 3000000000, count = 2\<rparr>"
  by code_simp

text \<open>
  C2. The claim: a model all of whose runs failed is never selected as the best
  model of a use case, even when it is the only model tested for it.

  The low-spec benchmark keeps to it (\<open>generateLowSpecSummary_winner_succeeded\<close>).
  \<^verbatim>\<open>findBestModel\<close> of the model comparison tool does not: it starts from a best
  score of \<open>-1\<close>, a model without a successful run scores \<open>0\<close>, and so the
  only model of a use case is selected although its single run failed.
\<close>

theorem findBestModel_selects_failed_model:
  "map ModelResult.Model failedComparison = [''orca-mini:3b'']
   \<and> map ModelResult.Success failedComparison = [False]
   \<and> inferUseCase (ModelResult.Prompt (hd failedComparison)) = ''blog''
   \<and> findBestModel [''orca-mini:3b''] failedComparison = Inr ''orca-mini:3b''
   \<and> (case generateSummary_BestModel (\<lambda>caseResults. [''orca-mini:3b'']) failedComparison of
         Inl e \<Rightarrow> None
       | Inr bestModel \<Rightarrow> bestModel ''blog'') = Some ''orca-mini:3b''"
  by code_simp

section \<open>The fallback of the recommended configuration\<close>

lemma generateRecommendedConfig_FallbackModel:
  "FallbackModel (generateRecommendedConfig results profile) = []"
  by (simp add: generateRecommendedConfig_def Let_def)

lemma generateConfigRecommendation_FallbackChain:
  "FallbackChain (generateConfigRecommendation bestModelPerUseCase)
     = [''mistral:latest'', ''llama2:7b'', ''orca-mini:3b'']"
  by (simp add: generateConfigRecommendation_def Let_def)

text \<open>
  C7. The claim: the recommended configuration always holds a non-empty, fixed
  fallback chain of lightweight models.

  \<^verbatim>\<open>generateConfigRecommendation\<close> of the model tester sets such a chain
  (\<open>generateConfigRecommendation_FallbackChain\<close>). \<^verbatim>\<open>generateRecommendedConfig\<close> of
  the low-spec benchmark never assigns \<^verbatim>\<open>FallbackModel\<close>
  (\<open>generateRecommendedConfig_FallbackModel\<close>): the configuration it returns has
  an empty fallback, with no result at all and with a successful one.
\<close>

theorem generateRecommendedConfig_no_fallback:
  "FallbackModel (generateRecommendedConfig [] laptopProfile) = []
   \<and> RecommendedConfig.PrimaryModel (generateRecommendedConfig [consumingResult] laptopProfile)
       = ''orca-mini:3b''
   \<and> FallbackModel (generateRecommendedConfig [consumingResult] laptopProfile) = []"
  by code_simp

end
